theory Spec2Isabelle
  imports Complex_Main "HOL-Library.AList" "HOL-Library.Sublist" "HOL-Library.Log_Nat"
begin

section \<open>The program\<close>

subsection \<open>Python values\<close>

text \<open>
  The handlers receive request bodies parsed from JSON, so the values they see are
  \<open>None\<close>, \<open>bool\<close>, \<open>int\<close>, \<open>float\<close>, \<open>str\<close>, \<open>list\<close> and \<open>dict\<close>.
  A \<open>float\<close> is an IEEE double: a finite double is a rational number, carried
  here by its exact value, next to the two infinities and NaN (the sign of zero is
  not kept; no modelled operation reads it). A \<open>str\<close> is a \<open>string\<close> whose
  characters are read as the code points below 256; a \<open>dict\<close> is an association
  list in insertion order, looked up with \<open>map_of\<close> and written with
  \<open>AList.update\<close>, as \<open>d[k] = v\<close> does.
\<close>

datatype pyfloat = Fin rat | PosInf | NegInf | NaN

datatype json =
    JNull
  | JBool bool
  | JInt int
  | JFloat pyfloat
  | JStr string
  | JArr "json list"
  | JObj "(string \<times> json) list"

type_synonym dict = "(string \<times> json) list"

text \<open>The exceptions the modelled code can raise.\<close>

datatype pyexn = ValueError | TypeError | OverflowError | IndexError | KeyError | AttributeError

text \<open>Truth value testing: \<open>if x\<close>, \<open>not x\<close>.\<close>

fun truthy :: "json \<Rightarrow> bool" where
  "truthy JNull = False"
| "truthy (JBool b) = b"
| "truthy (JInt n) = (n \<noteq> 0)"
| "truthy (JFloat f) = (f \<noteq> Fin 0)"
| "truthy (JStr s) = (s \<noteq> [])"
| "truthy (JArr xs) = (xs \<noteq> [])"
| "truthy (JObj d) = (d \<noteq> [])"

text \<open>\<open>isinstance(x, str)\<close>.\<close>

fun is_str :: "json \<Rightarrow> bool" where
  "is_str (JStr s) = True"
| "is_str v = False"

subsection \<open>Strings\<close>

text \<open>
  \<open>str.isspace\<close> on the code points below 256: the ASCII controls 9 to 13 and
  28 to 31, the space, NEL (0x85) and the no-break space (0xA0).
\<close>

definition isspace :: "char \<Rightarrow> bool" where
  "isspace c = (c \<in> {CHR 0x09, CHR 0x0A, CHR 0x0B, CHR 0x0C, CHR 0x0D,
                       CHR 0x1C, CHR 0x1D, CHR 0x1E, CHR 0x1F, CHR 0x20,
                       CHR 0x85, CHR 0xA0})"

text \<open>\<open>s.strip()\<close>: drop the leading, then the trailing whitespace.\<close>

definition strip :: "string \<Rightarrow> string" where
  "strip s = rev (dropWhile isspace (rev (dropWhile isspace s)))"



text \<open>\<open>s.startswith(p)\<close>.\<close>

definition startswith :: "string \<Rightarrow> string \<Rightarrow> bool" where
  "startswith s p = (take (length p) s = p)"

subsection \<open>The sanitizer (app/utils.py, sanitize\_input)\<close>

text \<open>
  The body of the loop: a string value is stripped, any other value is kept.
  The loop itself writes each entry into a dictionary that starts empty.
  Anything that is not a dictionary is returned as it is.
\<close>

definition sanitize_value :: "json \<Rightarrow> json" where
  "sanitize_value v = (case v of JStr s \<Rightarrow> JStr (strip s) | _ \<Rightarrow> v)"

fun sanitize_input :: "json \<Rightarrow> json" where
  "sanitize_input (JObj d) =
     JObj (fold (\<lambda>(key, v) sanitized. AList.update key (sanitize_value v) sanitized) d [])"
| "sanitize_input data = data"

text \<open>
  The same call on an object store, where the caller holds the address of its
  dictionary: the store is a list of objects, an address is an index, and
  \<open>sanitized = {}\<close> allocates the next free address. A value that is not a
  dictionary is handed back under the address it came with.
\<close>

type_synonym store = "json list"

definition sanitize_input_at :: "store \<Rightarrow> nat \<Rightarrow> store \<times> nat" where
  "sanitize_input_at h a =
     (case h ! a of
        JObj d \<Rightarrow> (h @ [sanitize_input (JObj d)], length h)
      | _ \<Rightarrow> (h, a))"

subsection \<open>The process environment\<close>

text \<open>
  The two environment variables the code reads. \<open>os.getenv('DEBUG')\<close> is used as a
  truth value: the debug flag is on when the variable is set to a non-empty string.
\<close>

record environ =
  JWT_SECRET :: "string option"
  DEBUG :: "string option"

definition debug_on :: "environ \<Rightarrow> bool" where
  "debug_on env = (case DEBUG env of None \<Rightarrow> False | Some s \<Rightarrow> s \<noteq> [])"

subsection \<open>The error response builder (app/utils.py, create\_error\_response)\<close>

text \<open>
  A response is the body handed to \<open>jsonify\<close> and the status code. The defaults
  \<open>hint=None\<close> and \<open>details=None\<close> are the value \<open>JNull\<close>.
\<close>

definition create_error_response :: "environ \<Rightarrow> json \<Rightarrow> nat \<Rightarrow> json \<Rightarrow> json \<Rightarrow> dict \<times> nat" where
  "create_error_response env message status_code hint details =
     (let response = [(''error'', message)];
          response = (if truthy hint then AList.update ''hint'' hint response else response);
          response = (if truthy details \<and> debug_on env
                      then AList.update ''details'' details response else response)
      in (response, status_code))"

subsection \<open>The auth gate (app/utils.py, require\_auth)\<close>

text \<open>
  \<open>jwt.decode(token, secret, algorithms=['HS256'])\<close> belongs to the PyJWT library
  and is a parameter of the model: it returns the payload or raises
  \<open>ExpiredSignatureError\<close> or another \<open>InvalidTokenError\<close>, whose text is
  \<open>str(e)\<close>.
\<close>

datatype jwt_result = ExpiredSignatureError | InvalidTokenError string | Payload dict

text \<open>\<open>s.split(sep, 1)\<close> for a separator of one character, and \<open>xs[i]\<close>.\<close>

definition split1 :: "char \<Rightarrow> string \<Rightarrow> string list" where
  "split1 sep s =
     (if sep \<in> set s
      then [takeWhile (\<lambda>c. c \<noteq> sep) s, tl (dropWhile (\<lambda>c. c \<noteq> sep) s)]
      else [s])"

definition index :: "'a list \<Rightarrow> nat \<Rightarrow> pyexn + 'a" where
  "index xs i = (if i < length xs then Inr (xs ! i) else Inl IndexError)"

text \<open>\<open>os.getenv('JWT_SECRET', 'default-secret-key')\<close>.\<close>

definition jwt_secret :: "environ \<Rightarrow> string" where
  "jwt_secret env = (case JWT_SECRET env of None \<Rightarrow> ''default-secret-key'' | Some s \<Rightarrow> s)"

text \<open>
  The rejections the decorator returns, each the body handed to \<open>jsonify\<close> and
  the status, in the order they stand in the source. A single quote that ends a
  message is appended as \<open>CHR 0x27\<close>.
\<close>

definition malformed_header_rejection :: "dict \<times> nat" where
  "malformed_header_rejection =
     ([(''error'', JStr (''Unauthorized: authorization header must start with 'Bearer '' @ [CHR 0x27])),
       (''hint'', JStr ''Include 'Authorization: Bearer <token>' in your request headers'')], 401)"

definition empty_token_rejection :: "dict \<times> nat" where
  "empty_token_rejection =
     ([(''error'', JStr ''Unauthorized: token is empty''),
       (''hint'', JStr (''Provide a valid JWT token after 'Bearer '' @ [CHR 0x27]))], 401)"

definition header_format_rejection :: "dict \<times> nat" where
  "header_format_rejection =
     ([(''error'', JStr ''Unauthorized: invalid authorization header format''),
       (''hint'', JStr (''Use format 'Authorization: Bearer <token>'' @ [CHR 0x27]))], 401)"

definition missing_header_rejection :: "dict \<times> nat" where
  "missing_header_rejection =
     ([(''error'', JStr ''Unauthorized: missing authorization header''),
       (''hint'', JStr ''Include 'Authorization: Bearer <token>' in your request headers'')], 401)"

definition missing_user_id_rejection :: "dict \<times> nat" where
  "missing_user_id_rejection =
     ([(''error'', JStr ''Unauthorized: token does not contain user_id''),
       (''hint'', JStr ''Token must include a valid user_id claim'')], 401)"

definition expired_rejection :: "dict \<times> nat" where
  "expired_rejection =
     ([(''error'', JStr ''Unauthorized: token has expired''),
       (''hint'', JStr ''Please obtain a new authentication token'')], 401)"

definition invalid_token_rejection :: "environ \<Rightarrow> string \<Rightarrow> dict \<times> nat" where
  "invalid_token_rejection env e =
     ([(''error'', JStr ''Unauthorized: invalid token''),
       (''hint'', JStr ''Please provide a valid JWT token''),
       (''details'', if debug_on env then JStr e else JNull)], 401)"

text \<open>
  The decorator up to the call of the wrapped function: the rejection it returns, or
  the \<open>user_id\<close> it stores on the request. The header argument is
  \<open>request.headers['Authorization']\<close>, \<open>None\<close> when the header is absent. The
  warning logged for the default secret changes no result and is left out.
\<close>

definition auth_gate ::
  "(string \<Rightarrow> string \<Rightarrow> jwt_result) \<Rightarrow> environ \<Rightarrow> string option \<Rightarrow> (dict \<times> nat) + json" where
  "auth_gate jwt_decode env authorization =
     (case authorization of
        None \<Rightarrow> Inl missing_header_rejection
      | Some auth_header \<Rightarrow>
          if \<not> startswith auth_header ''Bearer '' then Inl malformed_header_rejection
          else
            (case index (split1 CHR '' '' auth_header) 1 of
               Inl e \<Rightarrow> Inl header_format_rejection
             | Inr token \<Rightarrow>
                 if token = [] then Inl empty_token_rejection
                 else
                   (let secret = jwt_secret env
                    in case jwt_decode token secret of
                         Payload payload \<Rightarrow>
                           (let user_id = (case map_of payload ''user_id'' of
                                             None \<Rightarrow> JNull | Some u \<Rightarrow> u)
                            in if \<not> truthy user_id then Inl missing_user_id_rejection
                               else Inr user_id)
                       | ExpiredSignatureError \<Rightarrow> Inl expired_rejection
                       | InvalidTokenError e \<Rightarrow> Inl (invalid_token_rejection env e))))"

text \<open>The decorated function: the rejection, or the wrapped handler run with the identity.\<close>

definition require_auth ::
  "(string \<Rightarrow> string \<Rightarrow> jwt_result) \<Rightarrow> environ \<Rightarrow> string option \<Rightarrow> (json \<Rightarrow> dict \<times> nat) \<Rightarrow> dict \<times> nat" where
  "require_auth jwt_decode env authorization f =
     (case auth_gate jwt_decode env authorization of
        Inl rejection \<Rightarrow> rejection
      | Inr user_id \<Rightarrow> f user_id)"

subsection \<open>The auth gate as the specification words it\<close>

text \<open>
  The outcome type and the precedence list of the specification, written from its
  words and independent of the code above. A payload lacks the subject claim when
  \<open>user_id\<close> is absent or holds nothing (null, false, zero or an empty value).
\<close>

datatype reason = MissingHeader | MalformedHeader | EmptyToken | Expired | Invalid | MissingSubjectClaim

datatype auth_outcome = Authenticated json | Rejected reason

definition has_subject :: "dict \<Rightarrow> json option" where
  "has_subject p = (case map_of p ''user_id'' of
                      None \<Rightarrow> None
                    | Some u \<Rightarrow> if truthy u then Some u else None)"

definition authenticate_spec ::
  "(string \<Rightarrow> jwt_result) \<Rightarrow> string option \<Rightarrow> auth_outcome" where
  "authenticate_spec verify headerValue =
     (case headerValue of
        None \<Rightarrow> Rejected MissingHeader
      | Some h \<Rightarrow>
          if \<not> prefix ''Bearer '' h then Rejected MalformedHeader
          else if drop (length ''Bearer '') h = [] then Rejected EmptyToken
          else (case verify (drop (length ''Bearer '') h) of
                  ExpiredSignatureError \<Rightarrow> Rejected Expired
                | InvalidTokenError m \<Rightarrow> Rejected Invalid
                | Payload p \<Rightarrow>
                    (case has_subject p of
                       None \<Rightarrow> Rejected MissingSubjectClaim
                     | Some u \<Rightarrow> Authenticated u)))"

text \<open>The reason a rejection reports: read off its status and its error message.\<close>

definition reported_reason :: "dict \<times> nat \<Rightarrow> reason option" where
  "reported_reason r =
     (if snd r \<noteq> 401 then None
      else case map_of (fst r) ''error'' of
        Some (JStr m) \<Rightarrow>
          (if m = ''Unauthorized: missing authorization header'' then Some MissingHeader
           else if m = ''Unauthorized: authorization header must start with 'Bearer '' @ [CHR 0x27] then Some MalformedHeader
           else if m = ''Unauthorized: token is empty'' then Some EmptyToken
           else if m = ''Unauthorized: token has expired'' then Some Expired
           else if m = ''Unauthorized: invalid token'' then Some Invalid
           else if m = ''Unauthorized: token does not contain user_id'' then Some MissingSubjectClaim
           else None)
      | _ \<Rightarrow> None)"

subsection \<open>Conversions: int() and float()\<close>

text \<open>
  \<open>int(s)\<close> for a string: whitespace around the number is dropped, a sign may come
  first, then decimal digits, where one underscore may stand between two digits.
  \<open>None\<close> is \<open>ValueError\<close>. (The limit CPython 3.11 puts on the number of digits,
  4300 unless configured, is an interpreter setting and not part of the model.)
\<close>

definition isdigit :: "char \<Rightarrow> bool" where
  "isdigit c = (48 \<le> (of_char c :: nat) \<and> (of_char c :: nat) \<le> 57)"

definition digit_val :: "char \<Rightarrow> nat" where
  "digit_val c = of_char c - 48"

fun parse_digits :: "nat \<Rightarrow> string \<Rightarrow> nat option" where
  "parse_digits acc [] = Some acc"
| "parse_digits acc (c # cs) =
     (if isdigit c then parse_digits (10 * acc + digit_val c) cs
      else if c = CHR ''_'' then
        (case cs of
           [] \<Rightarrow> None
         | d # ds \<Rightarrow> if isdigit d then parse_digits (10 * acc + digit_val d) ds else None)
      else None)"

definition int_of_str :: "string \<Rightarrow> int option" where
  "int_of_str s =
     (let t = strip s;
          negative = (t \<noteq> [] \<and> hd t = CHR ''-'');
          u = (if t \<noteq> [] \<and> (hd t = CHR ''-'' \<or> hd t = CHR ''+'') then tl t else t)
      in case u of
           [] \<Rightarrow> None
         | d # ds \<Rightarrow>
             if isdigit d
             then map_option (\<lambda>n. if negative then - int n else int n)
                    (parse_digits (digit_val d) ds)
             else None)"

text \<open>
  \<open>int(x)\<close> for a JSON value: a float is truncated towards zero, an infinity raises
  \<open>OverflowError\<close>, NaN and a string that is no integer raise \<open>ValueError\<close>,
  \<open>None\<close>, a list and a dictionary raise \<open>TypeError\<close>.
\<close>

fun py_int :: "json \<Rightarrow> pyexn + int" where
  "py_int (JInt n) = Inr n"
| "py_int (JBool b) = Inr (if b then 1 else 0)"
| "py_int (JFloat (Fin r)) = Inr (if 0 \<le> r then \<lfloor>r\<rfloor> else \<lceil>r\<rceil>)"
| "py_int (JFloat NaN) = Inl ValueError"
| "py_int (JFloat f) = Inl OverflowError"
| "py_int (JStr s) = (case int_of_str s of None \<Rightarrow> Inl ValueError | Some n \<Rightarrow> Inr n)"
| "py_int v = Inl TypeError"





subsection \<open>Regular expressions\<close>

text \<open>
  The patterns of the source are regular expressions over character classes, matched
  by derivatives. \<open>re.match\<close> with a pattern between \<open>^\<close> and \<open>$\<close> matches the
  whole string, or the string without a final newline: \<open>$\<close> also matches just before
  a newline that ends the string.
\<close>

datatype rx = Zero | One | Atom "char \<Rightarrow> bool" | Alt rx rx | Seq rx rx | Star rx

fun nullable :: "rx \<Rightarrow> bool" where
  "nullable Zero = False"
| "nullable One = True"
| "nullable (Atom p) = False"
| "nullable (Alt r s) = (nullable r \<or> nullable s)"
| "nullable (Seq r s) = (nullable r \<and> nullable s)"
| "nullable (Star r) = True"

fun deriv :: "char \<Rightarrow> rx \<Rightarrow> rx" where
  "deriv c Zero = Zero"
| "deriv c One = Zero"
| "deriv c (Atom p) = (if p c then One else Zero)"
| "deriv c (Alt r s) = Alt (deriv c r) (deriv c s)"
| "deriv c (Seq r s) =
     (if nullable r then Alt (Seq (deriv c r) s) (deriv c s) else Seq (deriv c r) s)"
| "deriv c (Star r) = Seq (deriv c r) (Star r)"

definition fullmatch :: "rx \<Rightarrow> string \<Rightarrow> bool" where
  "fullmatch r s = nullable (fold deriv s r)"

definition re_match :: "rx \<Rightarrow> string \<Rightarrow> bool" where
  "re_match r s =
     (fullmatch r s \<or> (s \<noteq> [] \<and> last s = CHR 0x0A \<and> fullmatch r (butlast s)))"

text \<open>\<open>r+\<close>, \<open>r?\<close> and \<open>r{m,n}\<close>.\<close>

definition plus_rx :: "rx \<Rightarrow> rx" where
  "plus_rx r = Seq r (Star r)"



definition isalpha_ascii :: "char \<Rightarrow> bool" where
  "isalpha_ascii c =
     ((65 \<le> (of_char c :: nat) \<and> (of_char c :: nat) \<le> 90)
      \<or> (97 \<le> (of_char c :: nat) \<and> (of_char c :: nat) \<le> 122))"

text \<open>\<open>^[a-zA-Z0-9._%+-]+@[a-zA-Z0-9.-]+\.[a-zA-Z]{2,}$\<close>\<close>

definition email_pattern :: rx where
  "email_pattern =
     Seq (plus_rx (Atom (\<lambda>c. isalpha_ascii c \<or> isdigit c \<or> c \<in> set ''._%+-'')))
    (Seq (Atom (\<lambda>c. c = CHR ''@''))
    (Seq (plus_rx (Atom (\<lambda>c. isalpha_ascii c \<or> isdigit c \<or> c \<in> set ''.-'')))
    (Seq (Atom (\<lambda>c. c = CHR ''.''))
    (Seq (Atom isalpha_ascii) (Seq (Atom isalpha_ascii) (Star (Atom isalpha_ascii)))))))"


subsection \<open>The mock stores and the responses of the routes\<close>

text \<open>
  The entries of the three in-process lists. Every entry the handlers build or find
  has the same keys, so an entry is a record; \<open>notes\<close> is the one key an order may
  lack. A response is a body and a status. An error body is kept by its \<open>code\<close>
  field, and by the field lists of the required-field check; its explanatory texts are
  not modelled. An exception that leaves a handler is the result \<open>Inl\<close>. A handler
  returns its response together with the store as it leaves it.
\<close>

record order =
  o_id :: int
  o_product_id :: string
  o_quantity :: int
  o_customer_email :: string
  o_status :: string
  o_created_at :: string
  o_notes :: "json option"

record product =
  p_id :: string
  p_name :: json
  p_price :: pyfloat
  p_category :: json
  p_stock :: int
  p_description :: json

record customer =
  c_id :: string
  c_name :: string
  c_email :: string
  c_phone :: string

datatype body =
    Error string
  | FieldError string "string list" "string list"
  | Message string
  | OrderBody order
  | Page "order list" nat int int
  | ProductBody product
  | CustomerBody customer

type_synonym response = "body \<times> nat"

type_synonym 's result = "(pyexn + response) \<times> 's"

text \<open>
  The decorator of the three route modules: a request without an
  \<open>Authorization\<close> header is answered 401, any other goes on to the handler.
\<close>

definition token_required :: "string option \<Rightarrow> 's \<Rightarrow> 's result \<Rightarrow> 's result" where
  "token_required authorization db handler =
     (if authorization = None then (Inr (Error ''MISSING_AUTH_TOKEN'', 401), db)
      else handler)"




subsection \<open>Orders (routes/orders.py)\<close>

definition orders_db :: "order list" where
  "orders_db =
     [\<lparr>o_id = 1, o_product_id = ''PRD-001'', o_quantity = 2,
       o_customer_email = ''john@example.com'', o_status = ''pending'',
       o_created_at = ''2024-01-01T10:00:00Z'', o_notes = None\<rparr>,
      \<lparr>o_id = 2, o_product_id = ''PRD-002'', o_quantity = 1,
       o_customer_email = ''jane@example.com'', o_status = ''completed'',
       o_created_at = ''2024-01-02T11:00:00Z'', o_notes = None\<rparr>]"

text \<open>
  \<open>create_order\<close>. The request body is a JSON object (the record of the
  specification); \<open>now\<close> is \<open>datetime.now().isoformat()\<close>. The checks stand in the
  order of the source and each returns at once.
\<close>

definition create_order :: "string \<Rightarrow> string option \<Rightarrow> order list \<Rightarrow> dict \<Rightarrow> order list result" where
  "create_order now authorization db data =
     token_required authorization db
      (if data = [] then (Inr (Error ''MISSING_REQUEST_BODY'', 400), db)
       else
         let required_fields = [''product_id'', ''quantity'', ''customer_email''];
             missing_fields =
               filter (\<lambda>field. case map_of data field of
                                   None \<Rightarrow> True
                                 | Some v \<Rightarrow> \<not> truthy v) required_fields
         in if missing_fields \<noteq> [] then
              (Inr (FieldError ''MISSING_REQUIRED_FIELDS'' missing_fields [], 400), db)
            else
              (case (map_of data ''product_id'', map_of data ''quantity'',
                     map_of data ''customer_email'') of
                 (Some product_id, Some quantity_value, Some customer_email) \<Rightarrow>
                   (case product_id of
                      JStr pid \<Rightarrow>
                        if \<not> startswith pid ''PRD-'' then
                          (Inr (Error ''INVALID_PRODUCT_ID_FORMAT'', 400), db)
                        else
                          (case py_int quantity_value of
                             Inl e \<Rightarrow>
                               if e = ValueError \<or> e = TypeError then
                                 (Inr (Error ''INVALID_QUANTITY_TYPE'', 400), db)
                               else (Inl e, db)
                           | Inr quantity \<Rightarrow>
                               if quantity \<le> 0 then
                                 (Inr (Error ''INVALID_QUANTITY_VALUE'', 422), db)
                               else
                                 (case customer_email of
                                    JStr email \<Rightarrow>
                                      if \<not> re_match email_pattern email then
                                        (Inr (Error ''INVALID_EMAIL_FORMAT'', 400), db)
                                      else
                                        (let new_order =
                                               \<lparr>o_id = int (length db) + 1,
                                                o_product_id = pid,
                                                o_quantity = quantity,
                                                o_customer_email = email,
                                                o_status = ''pending'',
                                                o_created_at = now @ ''Z'',
                                                o_notes = None\<rparr>
                                         in (Inr (OrderBody new_order, 201), db @ [new_order]))
                                  | _ \<Rightarrow> (Inl TypeError, db)))
                    | _ \<Rightarrow> (Inr (Error ''INVALID_PRODUCT_ID_FORMAT'', 400), db))
               | _ \<Rightarrow> (Inl KeyError, db)))"






subsection \<open>Identifiers of products and customers\<close>




subsection \<open>Products (routes/products.py)\<close>




subsection \<open>Customers (routes/customers.py)\<close>









subsection \<open>Operators (app/utils.py, validate\_operator\_data; app/models.py)\<close>







text \<open>
  \<open>Operator.get_by_email\<close>. The table is the list of its rows; the query
  \<open>WHERE email = ? COLLATE NOCASE\<close>, asked with the lowered address, finds a row
  whose email equals it up to the case of the ASCII letters. A row whose timestamps
  do not parse is answered as \<open>None\<close>; \<open>datetime.fromisoformat\<close> is a parameter,
  given as the test whether it accepts a text. Failures of the database itself are not
  modelled.
\<close>

record operator_row =
  row_id :: string
  row_name :: string
  row_email :: string
  row_phone :: "string option"
  row_created_at :: string
  row_updated_at :: string



subsection \<open>The validation rules as the specification words them\<close>









section \<open>Verification\<close>

subsection \<open>The sanitizer\<close>

lemma update_fresh_key:
  "k \<notin> fst ` set al \<Longrightarrow> AList.update k v al = al @ [(k, v)]"
  by (induction al) auto

lemma sanitize_loop_distinct:
  "distinct (map fst (acc @ d)) \<Longrightarrow>
   fold (\<lambda>(key, v) sanitized. AList.update key (g v) sanitized) d acc
     = acc @ map (\<lambda>(key, v). (key, g v)) d"
proof (induction d arbitrary: acc)
  case Nil
  then show ?case by simp
next
  case (Cons p d)
  obtain k v where p: "p = (k, v)" by (cases p)
  from Cons.prems p have fresh: "k \<notin> fst ` set acc"
    by auto
  from Cons.prems p have "distinct (map fst ((acc @ [(k, g v)]) @ d))"
    by auto
  from Cons.IH [OF this] show ?case
    using fresh p by (simp add: update_fresh_key)
qed

lemma sanitize_input_map:
  "distinct (map fst d) \<Longrightarrow>
   sanitize_input (JObj d) = JObj (map (\<lambda>(key, v). (key, sanitize_value v)) d)"
  using sanitize_loop_distinct [of "[]" d sanitize_value] by simp

lemma map_of_sanitized:
  "map_of (map (\<lambda>(key, v). (key, sanitize_value v)) d) k
     = map_option sanitize_value (map_of d k)"
  by (induction d) auto

lemma sanitize_value_str: "sanitize_value (JStr s) = JStr (strip s)"
  by (simp add: sanitize_value_def)

lemma sanitize_value_other: "\<not> is_str v \<Longrightarrow> sanitize_value v = v"
  by (cases v) (simp_all add: sanitize_value_def)

lemma strip_decompose:
  "\<exists>pre suf. s = pre @ strip s @ suf
      \<and> list_all isspace pre \<and> list_all isspace suf"
proof -
  let ?t = "dropWhile isspace s"
  have s: "s = takeWhile isspace s @ ?t" by simp
  have "?t = rev (takeWhile isspace (rev ?t) @ dropWhile isspace (rev ?t))" by simp
  also have "\<dots> = rev (dropWhile isspace (rev ?t)) @ rev (takeWhile isspace (rev ?t))"
    by (rule rev_append)
  finally have t: "?t = strip s @ rev (takeWhile isspace (rev ?t))"
    by (simp only: strip_def)
  have "s = takeWhile isspace s @ strip s @ rev (takeWhile isspace (rev ?t))"
    using s t by metis
  moreover have "list_all isspace (takeWhile isspace s)"
    by (simp add: list_all_iff) (meson set_takeWhileD)
  moreover have "list_all isspace (rev (takeWhile isspace (rev ?t)))"
    by (simp add: list_all_iff) (meson set_takeWhileD)
  ultimately show ?thesis by blast
qed

lemma strip_ends:
  assumes "strip s \<noteq> []"
  shows "\<not> isspace (hd (strip s))" and "\<not> isspace (last (strip s))"
proof -
  let ?t = "dropWhile isspace s"
  let ?u = "dropWhile isspace (rev ?t)"
  from assms have u: "?u \<noteq> []" by (simp add: strip_def)
  then have t: "?t \<noteq> []"
    by (metis dropWhile.simps(1) rev.simps(1))
  have "last (strip s) = hd ?u"
    using u by (simp add: strip_def last_rev)
  then show "\<not> isspace (last (strip s))"
    using u hd_dropWhile by metis
  have "hd (strip s) = last ?u"
    using u by (simp add: strip_def hd_rev)
  also have "\<dots> = last (rev ?t)"
  proof -
    have "rev ?t = takeWhile isspace (rev ?t) @ ?u" by simp
    then show ?thesis using u by (metis last_appendR)
  qed
  also have "\<dots> = hd ?t" using t by (simp add: last_rev)
  finally show "\<not> isspace (hd (strip s))"
    using t hd_dropWhile by metis
qed

text \<open>
  C6. For a record with distinct keys (every Python dictionary), the sanitizer returns
  a record with the same keys in the same order; an entry holding a string holds the
  string without its leading and trailing whitespace afterwards (the result of
  \<open>strip\<close> is the input between a whitespace-only prefix and a whitespace-only
  suffix, and neither starts nor ends with whitespace); any other value is the same
  value. The result is a value for every input (the function raises nothing). On the
  object store, the result lives at a fresh address and every object that was in the
  store, the caller's record among them, is what it was.
\<close>

theorem sanitize_input_record:
  assumes "distinct (map fst d)"
  shows "\<exists>d'. sanitize_input (JObj d) = JObj d'
           \<and> map fst d' = map fst d
           \<and> (\<forall>k s. map_of d k = Some (JStr s) \<longrightarrow> map_of d' k = Some (JStr (strip s)))
           \<and> (\<forall>k v. map_of d k = Some v \<longrightarrow> \<not> is_str v \<longrightarrow> map_of d' k = Some v)
           \<and> (\<forall>k. map_of d k = None \<longrightarrow> map_of d' k = None)
           \<and> (\<forall>s. \<exists>pre suf. s = pre @ strip s @ suf
                  \<and> list_all isspace pre \<and> list_all isspace suf
                  \<and> (strip s \<noteq> [] \<longrightarrow> \<not> isspace (hd (strip s)) \<and> \<not> isspace (last (strip s))))
           \<and> (\<forall>h a. a < length h \<longrightarrow> h ! a = JObj d \<longrightarrow>
                  (case sanitize_input_at h a of (h', a') \<Rightarrow>
                     a' \<noteq> a \<and> h' ! a' = JObj d' \<and> h' ! a = JObj d
                     \<and> length h \<le> length h' \<and> (\<forall>b < length h. h' ! b = h ! b)))"
proof -
  let ?d' = "map (\<lambda>(key, v). (key, sanitize_value v)) d"
  have eq: "sanitize_input (JObj d) = JObj ?d'"
    using assms by (rule sanitize_input_map)
  have keys: "map fst ?d' = map fst d"
    by (induction d) auto
  have look: "\<And>k. map_of ?d' k = map_option sanitize_value (map_of d k)"
    by (rule map_of_sanitized)
  have strs: "\<forall>k s. map_of d k = Some (JStr s) \<longrightarrow> map_of ?d' k = Some (JStr (strip s))"
    by (simp add: look sanitize_value_str)
  have others: "\<forall>k v. map_of d k = Some v \<longrightarrow> \<not> is_str v \<longrightarrow> map_of ?d' k = Some v"
  proof (intro allI impI)
    fix k v
    assume "map_of d k = Some v" and "\<not> is_str v"
    then show "map_of ?d' k = Some v"
      by (simp add: look sanitize_value_other)
  qed
  have absent: "\<forall>k. map_of d k = None \<longrightarrow> map_of ?d' k = None"
    by (simp add: look)
  have ws: "\<forall>s. \<exists>pre suf. s = pre @ strip s @ suf
      \<and> list_all isspace pre \<and> list_all isspace suf
      \<and> (strip s \<noteq> [] \<longrightarrow> \<not> isspace (hd (strip s)) \<and> \<not> isspace (last (strip s)))"
    using strip_decompose strip_ends by blast
  have st: "\<forall>h a. a < length h \<longrightarrow> h ! a = JObj d \<longrightarrow>
      (case sanitize_input_at h a of (h', a') \<Rightarrow>
         a' \<noteq> a \<and> h' ! a' = JObj ?d' \<and> h' ! a = JObj d
         \<and> length h \<le> length h' \<and> (\<forall>b < length h. h' ! b = h ! b))"
  proof (intro allI impI)
    fix h :: store and a
    assume a: "a < length h" and ha: "h ! a = JObj d"
    have "sanitize_input_at h a = (h @ [JObj ?d'], length h)"
      using ha eq by (simp add: sanitize_input_at_def)
    then show "case sanitize_input_at h a of (h', a') \<Rightarrow>
         a' \<noteq> a \<and> h' ! a' = JObj ?d' \<and> h' ! a = JObj d
         \<and> length h \<le> length h' \<and> (\<forall>b < length h. h' ! b = h ! b)"
      using a ha by (simp add: nth_append)
  qed
  show ?thesis
    using eq keys strs others absent ws st by blast
qed

theorem sanitize_input_record_witness:
  "distinct (map fst [(''name'', JStr ''  Ada  ''), (''age'', JInt 36)])
   \<and> (\<exists>d'. sanitize_input (JObj [(''name'', JStr ''  Ada  ''), (''age'', JInt 36)]) = JObj d'
         \<and> map fst d' = [''name'', ''age'']
         \<and> map_of d' ''name'' = Some (JStr (strip ''  Ada  ''))
         \<and> map_of d' ''age'' = Some (JInt 36))
   \<and> sanitize_input (JObj [(''name'', JStr ''  Ada  ''), (''age'', JInt 36)])
       = JObj [(''name'', JStr ''Ada''), (''age'', JInt 36)]"
proof -
  let ?d = "[(''name'', JStr ''  Ada  ''), (''age'', JInt 36)]"
  have h: "distinct (map fst ?d)" by simp
  from sanitize_input_record [OF h]
  obtain d' where d': "sanitize_input (JObj ?d) = JObj d'"
      "map fst d' = map fst ?d"
      "\<forall>k s. map_of ?d k = Some (JStr s) \<longrightarrow> map_of d' k = Some (JStr (strip s))"
      "\<forall>k v. map_of ?d k = Some v \<longrightarrow> \<not> is_str v \<longrightarrow> map_of d' k = Some v"
    by blast
  have n: "map_of d' ''name'' = Some (JStr (strip ''  Ada  ''))"
    using d'(3) by simp
  have g: "map_of d' ''age'' = Some (JInt 36)"
    using d'(4) by simp
  have ev: "sanitize_input (JObj ?d) = JObj [(''name'', JStr ''Ada''), (''age'', JInt 36)]"
    by (simp add: sanitize_value_def strip_def isspace_def)
  show ?thesis
    using h d'(1,2) n g ev by auto
qed

subsection \<open>The auth gate\<close>

lemma startswith_prefix: "startswith s p = prefix p s"
proof
  assume "startswith s p"
  then have "s = p @ drop (length p) s"
    unfolding startswith_def by (metis append_take_drop_id)
  then show "prefix p s" by (metis prefixI)
next
  assume "prefix p s"
  then obtain t where "s = p @ t" by (auto simp: prefix_def)
  then show "startswith s p" by (simp add: startswith_def)
qed

lemma bearer_token:
  assumes "startswith h ''Bearer ''"
  shows "index (split1 CHR '' '' h) 1 = Inr (drop (length ''Bearer '') h)"
proof -
  let ?n = "length ''Bearer ''"
  from assms have "take ?n h = ''Bearer ''"
    by (simp only: startswith_def)
  then have "take ?n h @ drop ?n h = ''Bearer '' @ drop ?n h"
    by (simp only:)
  then have h: "h = ''Bearer '' @ drop ?n h"
    by (simp only: append_take_drop_id)
  have "index (split1 CHR '' '' (''Bearer '' @ t)) 1 = Inr t" for t
    by (simp add: split1_def index_def)
  from this [of "drop ?n h"] h show ?thesis
    by (simp only:)
qed

lemma reported_reasons:
  "reported_reason missing_header_rejection = Some MissingHeader"
  "reported_reason malformed_header_rejection = Some MalformedHeader"
  "reported_reason empty_token_rejection = Some EmptyToken"
  "reported_reason expired_rejection = Some Expired"
  "reported_reason (invalid_token_rejection env e) = Some Invalid"
  "reported_reason missing_user_id_rejection = Some MissingSubjectClaim"
  "reported_reason header_format_rejection = None"
  by (simp_all add: reported_reason_def missing_header_rejection_def
      malformed_header_rejection_def empty_token_rejection_def expired_rejection_def
      invalid_token_rejection_def missing_user_id_rejection_def header_format_rejection_def)

lemma auth_gate_bearer:
  assumes "startswith h ''Bearer ''"
  shows "auth_gate jwt_decode env (Some h) =
     (if drop (length ''Bearer '') h = [] then Inl empty_token_rejection
      else case jwt_decode (drop (length ''Bearer '') h) (jwt_secret env) of
             Payload payload \<Rightarrow>
               (case has_subject payload of
                  None \<Rightarrow> Inl missing_user_id_rejection
                | Some u \<Rightarrow> Inr u)
           | ExpiredSignatureError \<Rightarrow> Inl expired_rejection
           | InvalidTokenError e \<Rightarrow> Inl (invalid_token_rejection env e))"
proof -
  let ?t = "drop (length ''Bearer '') h"
  note tok = bearer_token [OF assms]
  show ?thesis
  proof (cases "?t = []")
    case True
    then show ?thesis
      using assms tok by (simp add: auth_gate_def)
  next
    case False
    show ?thesis
    proof (cases "jwt_decode ?t (jwt_secret env)")
      case (Payload payload)
      then show ?thesis
        using assms tok False
        by (cases "map_of payload ''user_id''") (simp_all add: auth_gate_def has_subject_def)
    qed (use assms tok False in \<open>simp_all add: auth_gate_def\<close>)
  qed
qed

lemma auth_gate_refines:
  "map_sum reported_reason id (auth_gate jwt_decode env hdr)
     = (case authenticate_spec (\<lambda>token. jwt_decode token (jwt_secret env)) hdr of
          Rejected r \<Rightarrow> Inl (Some r)
        | Authenticated u \<Rightarrow> Inr u)"
proof (cases hdr)
  case None
  then show ?thesis
    by (simp add: auth_gate_def authenticate_spec_def reported_reasons)
next
  case (Some h)
  show ?thesis
  proof (cases "startswith h ''Bearer ''")
    case False
    then have "auth_gate jwt_decode env (Some h) = Inl malformed_header_rejection"
      by (simp add: auth_gate_def)
    moreover from False have "\<not> prefix ''Bearer '' h"
      by (simp only: startswith_prefix not_False_eq_True)
    ultimately show ?thesis
      unfolding Some authenticate_spec_def
      by (simp only: option.case if_P not_False_eq_True map_sum.simps reported_reasons
          auth_outcome.case)
  next
    case True
    then have p: "prefix ''Bearer '' h"
      by (simp only: startswith_prefix)
    have spec: "authenticate_spec (\<lambda>token. jwt_decode token (jwt_secret env)) (Some h) =
       (if drop (length ''Bearer '') h = [] then Rejected EmptyToken
        else case jwt_decode (drop (length ''Bearer '') h) (jwt_secret env) of
               ExpiredSignatureError \<Rightarrow> Rejected Expired
             | InvalidTokenError m \<Rightarrow> Rejected Invalid
             | Payload p \<Rightarrow>
                 (case has_subject p of
                    None \<Rightarrow> Rejected MissingSubjectClaim
                  | Some u \<Rightarrow> Authenticated u))"
      unfolding authenticate_spec_def using p
      by (simp only: option.case not_True_eq_False if_False)
    show ?thesis
      unfolding Some auth_gate_bearer [OF True] spec
      by (simp add: reported_reasons split: jwt_result.split option.split)
  qed
qed

text \<open>
  C1. The rejection the auth gate returns, read by its message, is the reason the
  specification's precedence list gives, and the gate lets a request through exactly
  when the list ends in \<open>Authenticated\<close>, with the same identity: an absent
  header is \<open>MissingHeader\<close> whatever the token decoder is (it is never asked); a
  header that does not start with \<open>Bearer \<close> is \<open>MalformedHeader\<close>; the header
  \<open>Bearer \<close> is \<open>EmptyToken\<close>; then the decoder's verdict (\<open>Expired\<close>,
  \<open>Invalid\<close>), then the \<open>user_id\<close> claim (\<open>MissingSubjectClaim\<close> when it is
  absent or holds nothing). Every rejection has status 401 and reports one of the six
  reasons; the decorated function returns that rejection, or the wrapped handler's
  response for the identity.
\<close>

theorem auth_gate_precedence:
  "map_sum reported_reason id (auth_gate jwt_decode env hdr)
     = (case authenticate_spec (\<lambda>token. jwt_decode token (jwt_secret env)) hdr of
          Rejected r \<Rightarrow> Inl (Some r)
        | Authenticated u \<Rightarrow> Inr u)
   \<and> map_sum reported_reason id (auth_gate jwt_decode env None) = Inl (Some MissingHeader)
   \<and> map_sum reported_reason id (auth_gate jwt_decode env (Some ''Bearer ''))
       = Inl (Some EmptyToken)
   \<and> (case auth_gate jwt_decode env hdr of
         Inl r \<Rightarrow> require_auth jwt_decode env hdr f = r \<and> snd r = 401
                    \<and> reported_reason r \<noteq> None
       | Inr u \<Rightarrow> require_auth jwt_decode env hdr f = f u)"
proof -
  have none: "map_sum reported_reason id (auth_gate jwt_decode env None)
      = Inl (Some MissingHeader)"
    by (simp add: auth_gate_def reported_reasons)
  have "startswith ''Bearer '' ''Bearer ''"
    by (simp add: startswith_def)
  from auth_gate_bearer [OF this]
  have empty: "map_sum reported_reason id (auth_gate jwt_decode env (Some ''Bearer ''))
      = Inl (Some EmptyToken)"
    by (simp add: reported_reasons)
  have wrap: "case auth_gate jwt_decode env hdr of
         Inl r \<Rightarrow> require_auth jwt_decode env hdr f = r \<and> snd r = 401
                    \<and> reported_reason r \<noteq> None
       | Inr u \<Rightarrow> require_auth jwt_decode env hdr f = f u"
  proof (cases "auth_gate jwt_decode env hdr")
    case (Inl r)
    from auth_gate_refines [of jwt_decode env hdr] Inl
    have "reported_reason r \<noteq> None"
      by (auto split: auth_outcome.splits)
    moreover have "snd r = 401"
      using \<open>reported_reason r \<noteq> None\<close>
      by (auto simp: reported_reason_def split: if_splits)
    ultimately show ?thesis
      using Inl by (simp add: require_auth_def)
  next
    case (Inr u)
    then show ?thesis by (simp add: require_auth_def)
  qed
  show ?thesis
    by (intro conjI) (rule auth_gate_refines none empty wrap)+
qed

theorem auth_gate_precedence_witness:
  "map_sum reported_reason id
     (auth_gate (\<lambda>token secret. if token = ''abc'' \<and> secret = ''default-secret-key''
                                    then Payload [(''user_id'', JInt 7)]
                                    else InvalidTokenError ''Signature verification failed'')
        \<lparr>JWT_SECRET = None, DEBUG = None\<rparr> (Some ''Bearer abc'')) = Inr (JInt 7)
   \<and> map_sum reported_reason id
     (auth_gate (\<lambda>token secret. if token = ''abc'' \<and> secret = ''default-secret-key''
                                    then Payload [(''user_id'', JInt 7)]
                                    else InvalidTokenError ''Signature verification failed'')
        \<lparr>JWT_SECRET = None, DEBUG = None\<rparr> (Some ''Bearer xyz'')) = Inl (Some Invalid)
   \<and> map_sum reported_reason id
     (auth_gate (\<lambda>token secret. if token = ''abc'' \<and> secret = ''default-secret-key''
                                    then Payload [(''user_id'', JInt 7)]
                                    else InvalidTokenError ''Signature verification failed'')
        \<lparr>JWT_SECRET = None, DEBUG = None\<rparr> (Some ''Basic abc'')) = Inl (Some MalformedHeader)"
proof -
  let ?dec = "\<lambda>token secret. if token = ''abc'' \<and> secret = ''default-secret-key''
                                    then Payload [(''user_id'', JInt 7)]
                                    else InvalidTokenError ''Signature verification failed''"
  let ?env = "\<lparr>JWT_SECRET = None, DEBUG = None\<rparr>"
  have a: "authenticate_spec (\<lambda>token. ?dec token (jwt_secret ?env)) (Some ''Bearer abc'')
      = Authenticated (JInt 7)"
    by (simp add: authenticate_spec_def jwt_secret_def has_subject_def)
  have b: "authenticate_spec (\<lambda>token. ?dec token (jwt_secret ?env)) (Some ''Bearer xyz'')
      = Rejected Invalid"
    by (simp add: authenticate_spec_def jwt_secret_def has_subject_def)
  have c: "authenticate_spec (\<lambda>token. ?dec token (jwt_secret ?env)) (Some ''Basic abc'')
      = Rejected MalformedHeader"
    by (simp add: authenticate_spec_def jwt_secret_def has_subject_def)
  note t = auth_gate_precedence [where jwt_decode = ?dec and env = ?env
      and f = "\<lambda>u. ([], 200)", THEN conjunct1]
  from t [of "Some ''Bearer abc''"] t [of "Some ''Bearer xyz''"] t [of "Some ''Basic abc''"]
  show ?thesis
    by (simp only: a b c auth_outcome.case simp_thms)
qed

subsection \<open>The error response builder\<close>

lemma truthy_not_null: "truthy v \<Longrightarrow> v \<noteq> JNull"
  by (cases v) simp_all

lemma details_field:
  "map_of (fst (create_error_response env message status_code hint details)) ''details''
     = (if debug_on env \<and> truthy details then Some details else None)"
  by (simp add: create_error_response_def Let_def update_conv)

lemma details_ignored:
  "\<not> debug_on env \<Longrightarrow>
   create_error_response env message status_code hint details
     = create_error_response env message status_code hint details'"
  by (simp add: create_error_response_def Let_def)

lemma invalid_token_text_hidden:
  "\<not> debug_on env \<Longrightarrow>
   auth_gate (\<lambda>token secret. InvalidTokenError e) env hdr
     = auth_gate (\<lambda>token secret. InvalidTokenError e') env hdr"
  by (simp add: auth_gate_def invalid_token_rejection_def
      split: option.split sum.split)

text \<open>
  C8, as the claim states it, fails: with the debug flag on, a details value that is
  not null but counts as false in Python (here the empty string, the text of an exception
  raised without a message) is left out of the body.
\<close>

theorem error_response_details_counterexample:
  "debug_on \<lparr>JWT_SECRET = None, DEBUG = Some ''1''\<rparr>
   \<and> JStr [] \<noteq> JNull
   \<and> map_of (fst (create_error_response \<lparr>JWT_SECRET = None, DEBUG = Some ''1''\<rparr>
                (JStr ''Failed to create operator'') 500
                (JStr ''Please try again later or contact support'') (JStr [])))
        ''details'' = None"
  by (simp add: debug_on_def details_field)

text \<open>
  C8, amended. The body holds a \<open>details\<close> field exactly when the debug flag is on
  (the variable \<open>DEBUG\<close> is set and not empty) and the details value counts as true
  (it is not null, false, zero or empty), and the field then holds that value; a
  field that is present means that the flag is on and the value is not null. With the
  flag off the response is the same for any two details values, and the rejection of
  an invalid token is the same whatever the text of the exception.
\<close>

theorem error_response_details:
  "map_of (fst (create_error_response env message status_code hint details)) ''details''
     = (if debug_on env \<and> truthy details then Some details else None)
   \<and> snd (create_error_response env message status_code hint details) = status_code
   \<and> (map_of (fst (create_error_response env message status_code hint details)) ''details''
         \<noteq> None \<longrightarrow> debug_on env \<and> details \<noteq> JNull)
   \<and> (\<not> debug_on env \<longrightarrow>
         create_error_response env message status_code hint details
           = create_error_response env message status_code hint details')
   \<and> (\<not> debug_on env \<longrightarrow>
         auth_gate (\<lambda>token secret. InvalidTokenError e) env hdr
           = auth_gate (\<lambda>token secret. InvalidTokenError e') env hdr)"
proof -
  have st: "snd (create_error_response env message status_code hint details) = status_code"
    by (simp add: create_error_response_def Let_def)
  have present: "map_of (fst (create_error_response env message status_code hint details))
      ''details'' \<noteq> None \<longrightarrow> debug_on env \<and> details \<noteq> JNull"
    unfolding details_field using truthy_not_null [of details]
    by (cases "debug_on env \<and> truthy details") simp_all
  have same: "\<not> debug_on env \<longrightarrow>
         create_error_response env message status_code hint details
           = create_error_response env message status_code hint details'"
    using details_ignored by (rule impI)
  have hidden: "\<not> debug_on env \<longrightarrow>
         auth_gate (\<lambda>token secret. InvalidTokenError e) env hdr
           = auth_gate (\<lambda>token secret. InvalidTokenError e') env hdr"
    using invalid_token_text_hidden by (rule impI)
  show ?thesis
    by (intro conjI) (rule details_field st present same hidden)+
qed

theorem error_response_details_witness:
  "\<not> debug_on \<lparr>JWT_SECRET = None, DEBUG = None\<rparr>
   \<and> create_error_response \<lparr>JWT_SECRET = None, DEBUG = None\<rparr>
        (JStr ''Failed to create operator'') 500 JNull (JStr ''no such table: operators'')
     = create_error_response \<lparr>JWT_SECRET = None, DEBUG = None\<rparr>
        (JStr ''Failed to create operator'') 500 JNull (JStr ''disk I/O error'')
   \<and> map_of (fst (create_error_response \<lparr>JWT_SECRET = None, DEBUG = Some ''1''\<rparr>
        (JStr ''Validation failed'') 400 JNull (JArr [JStr ''name is required''])))
        ''details'' = Some (JArr [JStr ''name is required''])"
proof -
  have off: "\<not> debug_on \<lparr>JWT_SECRET = None, DEBUG = None\<rparr>"
    by (simp add: debug_on_def)
  have on: "debug_on \<lparr>JWT_SECRET = None, DEBUG = Some ''1''\<rparr>"
    by (simp add: debug_on_def)
  note same = error_response_details [where env = "\<lparr>JWT_SECRET = None, DEBUG = None\<rparr>"
      and message = "JStr ''Failed to create operator''" and status_code = 500
      and hint = JNull and details = "JStr ''no such table: operators''"
      and details' = "JStr ''disk I/O error''" and e = "[]" and e' = "[]" and hdr = None,
      THEN conjunct2, THEN conjunct2, THEN conjunct2, THEN conjunct1, rule_format, OF off]
  note shown = error_response_details [where env = "\<lparr>JWT_SECRET = None, DEBUG = Some ''1''\<rparr>"
      and message = "JStr ''Validation failed''" and status_code = 400
      and hint = JNull and details = "JArr [JStr ''name is required'']"
      and details' = JNull and e = "[]" and e' = "[]" and hdr = None, THEN conjunct1]
  have "map_of (fst (create_error_response \<lparr>JWT_SECRET = None, DEBUG = Some ''1''\<rparr>
        (JStr ''Validation failed'') 400 JNull (JArr [JStr ''name is required''])))
        ''details'' = Some (JArr [JStr ''name is required''])"
    using shown on by simp
  with off same show ?thesis
    by (intro conjI)
qed

subsection \<open>Orders\<close>



lemma startswith_not_empty: "startswith s (c # p) \<Longrightarrow> s \<noteq> []"
  by (auto simp: startswith_def)


lemma create_order_quantity_checked:
  assumes "authorization \<noteq> None"
    and "map_of data ''product_id'' = Some (JStr pid)" and "startswith pid ''PRD-''"
    and "map_of data ''quantity'' = Some v" and "truthy v"
    and "map_of data ''customer_email'' = Some email_value" and "truthy email_value"
  shows "py_int v = Inl ValueError \<or> py_int v = Inl TypeError \<Longrightarrow>
           create_order now authorization db data
             = (Inr (Error ''INVALID_QUANTITY_TYPE'', 400), db)"
    and "py_int v = Inr q \<Longrightarrow> q \<le> 0 \<Longrightarrow>
           create_order now authorization db data
             = (Inr (Error ''INVALID_QUANTITY_VALUE'', 422), db)"
proof -
  from assms(2) have ne: "data \<noteq> []" by auto
  have p: "pid \<noteq> []" using assms(3) by (rule startswith_not_empty)
  show "py_int v = Inl ValueError \<or> py_int v = Inl TypeError \<Longrightarrow>
           create_order now authorization db data
             = (Inr (Error ''INVALID_QUANTITY_TYPE'', 400), db)"
    using assms ne p by (auto simp: create_order_def token_required_def Let_def)
  show "py_int v = Inr q \<Longrightarrow> q \<le> 0 \<Longrightarrow>
           create_order now authorization db data
             = (Inr (Error ''INVALID_QUANTITY_VALUE'', 422), db)"
    using assms ne p by (auto simp: create_order_def token_required_def Let_def)
qed




text \<open>
  C3, at the input where the code leaves the claim. The integer 0 is a quantity that
  \<open>int()\<close> accepts and that is out of range, so the claim asks for 422; the
  required-field check takes it for a missing field and answers 400. The same zero
  written as the string \<open>"0"\<close> passes that check and gets the 422 of the range
  check, as does \<open>-1\<close>. A quantity that is the float infinity (the JSON number
  \<open>1e999\<close>) is no integer either, but \<open>int()\<close> raises \<open>OverflowError\<close> for it,
  which the handler does not catch: the request ends in the exception, not in 400.
\<close>

theorem create_order_zero_quantity:
  "create_order ''2024-05-01T12:00:00'' (Some ''Bearer t'') orders_db
     [(''product_id'', JStr ''PRD-001''), (''quantity'', JInt 0),
      (''customer_email'', JStr ''a@b.com'')]
     = (Inr (FieldError ''MISSING_REQUIRED_FIELDS'' [''quantity''] [], 400), orders_db)
   \<and> py_int (JInt 0) = Inr 0
   \<and> create_order ''2024-05-01T12:00:00'' (Some ''Bearer t'') orders_db
     [(''product_id'', JStr ''PRD-001''), (''quantity'', JStr ''0''),
      (''customer_email'', JStr ''a@b.com'')]
     = (Inr (Error ''INVALID_QUANTITY_VALUE'', 422), orders_db)
   \<and> create_order ''2024-05-01T12:00:00'' (Some ''Bearer t'') orders_db
     [(''product_id'', JStr ''PRD-001''), (''quantity'', JInt (- 1)),
      (''customer_email'', JStr ''a@b.com'')]
     = (Inr (Error ''INVALID_QUANTITY_VALUE'', 422), orders_db)
   \<and> create_order ''2024-05-01T12:00:00'' (Some ''Bearer t'') orders_db
     [(''product_id'', JStr ''PRD-001''), (''quantity'', JFloat PosInf),
      (''customer_email'', JStr ''a@b.com'')]
     = (Inl OverflowError, orders_db)"
  by (simp add: create_order_def token_required_def startswith_def
      int_of_str_def strip_def isspace_def isdigit_def digit_val_def)







subsection \<open>Validation\<close>










subsection \<open>Email addresses and letter case\<close>
























subsection \<open>Identifiers\<close>






end
